theory Spec2Isabelle
  imports Main
begin

section \<open>Data model (db.ts)\<close>

text \<open>
  The three collections the handlers touch.  A JavaScript string is the list of its
  code units, so \<open>length\<close> is the string's \<open>.length\<close>.  An ObjectId is represented by its
  24-character hexadecimal string in the form the store prints, with lower-case digits;
  a stored identifier is in that form.  A collection is a list in the store's natural order:
  \<open>findOne\<close> and \<open>deleteOne\<close> act on the first matching document, and nothing in
  \<open>LinkSchema\<close> keeps a user from owning several links, so order and duplicates matter.
\<close>

type_synonym objectid = string

record user =
  user_id :: objectid
  username :: string
  password :: string

record content =
  content_id :: objectid
  link :: string
  ctype :: string
  title :: string
  content_userId :: objectid
  tags :: "objectid list"

record sharelink =
  hash :: string
  link_userId :: objectid

record store =
  users :: "user list"
  contents :: "content list"
  links :: "sharelink list"

section \<open>Requests, responses and errors\<close>

text \<open>
  A parsed JSON body is an object of scalar fields.  A response is the status code and
  the JSON document sent; \<open>res.json\<close> without \<open>res.status\<close> sends 200.
\<close>

datatype json = JString string | JBool bool | JNumber int | JNull

type_synonym jbody = "(string \<times> json) list"

datatype zod_issue =
  InvalidType string
  | TooSmall string string
  | TooBig string string

datatype payload =
  Message string
  | MessageErrors string "zod_issue list"
  | Token string
  | Hash string
  | Brain string "content list"

record response =
  status :: nat
  body :: payload

datatype error =
  ZodError "zod_issue list"
  | MongoServerError nat
  | ValidationError
  | CastError

definition reply :: "nat \<Rightarrow> payload \<Rightarrow> response" where
  "reply c b = \<lparr>status = c, body = b\<rparr>"

definition ok :: "payload \<Rightarrow> response" where
  "ok b = reply 200 b"

text \<open>\<open>isMongoError\<close>: the thrown value is an object with a \<open>code\<close> property.\<close>

fun error_code :: "error \<Rightarrow> nat option" where
  "error_code (MongoServerError c) = Some c"
| "error_code (ZodError is) = None"
| "error_code ValidationError = None"
| "error_code CastError = None"

definition isMongoError :: "error \<Rightarrow> bool" where
  "isMongoError e = (error_code e \<noteq> None)"

section \<open>Configuration (config.ts)\<close>

text \<open>
  \<open>process.env.JWT_PASSWORD || "!123123"\<close>: the argument is the environment variable,
  absent or a string; the empty string is falsy.
\<close>

definition JWT_PASSWORD :: "string option \<Rightarrow> string" where
  "JWT_PASSWORD v = (case v of None \<Rightarrow> ''!123123'' | Some s \<Rightarrow> if s = [] then ''!123123'' else s)"

section \<open>Input validation (the zod schemas of index.ts)\<close>

datatype check = Min nat string | Max nat string

fun run_check :: "string \<Rightarrow> string \<Rightarrow> check \<Rightarrow> zod_issue list" where
  "run_check path s (Min n m) = (if length s < n then [TooSmall path m] else [])"
| "run_check path s (Max n m) = (if n < length s then [TooBig path m] else [])"

definition z_string :: "check list \<Rightarrow> string \<Rightarrow> json option \<Rightarrow> zod_issue list + string" where
  "z_string cs path v =
     (case v of
        Some (JString s) \<Rightarrow>
          (case concat (map (run_check path s) cs) of
             [] \<Rightarrow> Inr s
           | i # is \<Rightarrow> Inl (i # is))
      | _ \<Rightarrow> Inl [InvalidType path])"

definition z_boolean :: "string \<Rightarrow> json option \<Rightarrow> zod_issue list + bool" where
  "z_boolean path v = (case v of Some (JBool b) \<Rightarrow> Inr b | _ \<Rightarrow> Inl [InvalidType path])"

fun issues_of :: "zod_issue list + 'a \<Rightarrow> zod_issue list" where
  "issues_of (Inl is) = is"
| "issues_of (Inr x) = []"

text \<open>An object schema parses every field and reports the issues of all of them.\<close>

definition z_object2 ::
  "zod_issue list + 'a \<Rightarrow> zod_issue list + 'b \<Rightarrow> zod_issue list + ('a \<times> 'b)" where
  "z_object2 ra rb =
     (case ra of
        Inr a \<Rightarrow> (case rb of Inr b \<Rightarrow> Inr (a, b) | Inl is \<Rightarrow> Inl is)
      | Inl is \<Rightarrow> Inl (is @ issues_of rb))"

definition signupSchema :: "jbody \<Rightarrow> zod_issue list + (string \<times> string)" where
  "signupSchema b =
     z_object2
       (z_string [Min 3 ''Username must be at least 3 characters'',
                  Max 50 ''Username must be less than 50 characters'']
          ''username'' (map_of b ''username''))
       (z_string [Min 6 ''Password must be at least 6 characters'',
                  Max 100 ''Password must be less than 100 characters'']
          ''password'' (map_of b ''password''))"

definition signinSchema :: "jbody \<Rightarrow> zod_issue list + (string \<times> string)" where
  "signinSchema b =
     z_object2
       (z_string [Min 1 ''Username is required''] ''username'' (map_of b ''username''))
       (z_string [Min 1 ''Password is required''] ''password'' (map_of b ''password''))"

definition shareSchema :: "jbody \<Rightarrow> zod_issue list + bool" where
  "shareSchema b = z_boolean ''share'' (map_of b ''share'')"

definition deleteContentSchema :: "jbody \<Rightarrow> zod_issue list + string" where
  "deleteContentSchema b =
     z_string [Min 1 ''Content ID is required''] ''contentId'' (map_of b ''contentId'')"

section \<open>The document store at its boundary\<close>

text \<open>
  \<open>findOne\<close> yields the first document that matches the filter, \<open>find\<close> all of them in
  order, \<open>deleteOne\<close> removes the first match and reports how many documents it removed.
  An operation fails only where a schema makes it fail (a required field, the unique
  index); a store that cannot be reached, which every handler would answer with 500, is
  outside the model.
\<close>

definition findOne :: "('a \<Rightarrow> bool) \<Rightarrow> 'a list \<Rightarrow> 'a option" where
  "findOne P xs = List.find P xs"

definition find_all :: "('a \<Rightarrow> bool) \<Rightarrow> 'a list \<Rightarrow> 'a list" where
  "find_all P xs = filter P xs"

fun deleteOne :: "('a \<Rightarrow> bool) \<Rightarrow> 'a list \<Rightarrow> nat \<times> 'a list" where
  "deleteOne P [] = (0, [])"
| "deleteOne P (x # xs) =
     (if P x then (1, xs)
      else (fst (deleteOne P xs), x # snd (deleteOne P xs)))"

text \<open>
  \<open>UserSchema\<close>: both fields \<open>required\<close> (a required string is non-empty), \<open>username\<close>
  \<open>unique\<close>.  The document is validated first; the insert then fails on the unique
  index with code 11000.
\<close>

definition UserModel_create :: "store \<Rightarrow> user \<Rightarrow> error + store" where
  "UserModel_create s u =
     (if username u = [] \<or> password u = [] then Inl ValidationError
      else if username u \<in> set (map username (users s)) then Inl (MongoServerError 11000)
      else Inr (s\<lparr>users := users s @ [u]\<rparr>))"

text \<open>\<open>LinkSchema\<close>: \<open>hash\<close> and \<open>userId\<close> required, neither unique.\<close>

definition LinkModel_create :: "store \<Rightarrow> string \<Rightarrow> objectid option \<Rightarrow> error + store" where
  "LinkModel_create s h uid =
     (case uid of
        None \<Rightarrow> Inl ValidationError
      | Some u \<Rightarrow>
          if h = [] then Inl ValidationError
          else Inr (s\<lparr>links := links s @ [\<lparr>hash = h, link_userId = u\<rparr>]\<rparr>))"

section \<open>Identity Verifier (userMiddleware)\<close>

text \<open>
  \<open>jwt.verify\<close> is the library's: it yields the decoded payload, a string or an object
  of claims, or throws (here \<open>None\<close>).  The middleware takes it as a parameter.
\<close>

type_synonym jwt_payload = "(string \<times> string) list"

datatype jwt_decoded = JwtString string | JwtObject jwt_payload

datatype mw_result = Reject response | Next "string option"

definition bearer_token :: "string \<Rightarrow> string" where
  "bearer_token header = (if take 7 header = ''Bearer '' then drop 7 header else header)"

fun truthy :: "jwt_decoded \<Rightarrow> bool" where
  "truthy (JwtString s) = (s \<noteq> [])"
| "truthy (JwtObject p) = True"

definition userMiddleware ::
  "(string \<Rightarrow> string \<Rightarrow> jwt_decoded option) \<Rightarrow> string option \<Rightarrow> string option \<Rightarrow> mw_result" where
  "userMiddleware jwt_verify env header =
     (case header of
        None \<Rightarrow> Reject (reply 401 (Message ''Authorization header is required''))
      | Some h \<Rightarrow>
          if h = [] then Reject (reply 401 (Message ''Authorization header is required''))
          else
            (case jwt_verify (bearer_token h) (JWT_PASSWORD env) of
               None \<Rightarrow> Reject (reply 401 (Message ''Invalid or expired token''))
             | Some decoded \<Rightarrow>
                 if truthy decoded then
                   (case decoded of
                      JwtString s \<Rightarrow> Reject (reply 403 (Message ''Invalid token format''))
                    | JwtObject p \<Rightarrow> Next (map_of p ''id''))
                 else Reject (reply 403 (Message ''You are not logged in''))))"

section \<open>Credential handling (signup, signin)\<close>

text \<open>
  \<open>bcrypt.hash\<close>, \<open>bcrypt.compare\<close> and \<open>jwt.sign\<close> are the libraries'; the handlers
  take them as parameters.  \<open>fresh\<close> is the identifier the store gives the new document.
  Each handler is its \<open>try\<close> block, which yields a response (and the store) or the
  thrown error, and the \<open>catch\<close> that turns the error into a response.
\<close>

definition signup_try ::
  "(string \<Rightarrow> nat \<Rightarrow> string) \<Rightarrow> objectid \<Rightarrow> store \<Rightarrow> jbody \<Rightarrow> error + (response \<times> store)" where
  "signup_try bcrypt_hash fresh s b =
     (case signupSchema b of
        Inl issues \<Rightarrow> Inl (ZodError issues)
      | Inr (uname, pword) \<Rightarrow>
          (let saltRounds = 10;
               hashedPassword = bcrypt_hash pword saltRounds
           in case UserModel_create s \<lparr>user_id = fresh, username = uname, password = hashedPassword\<rparr> of
                Inl e \<Rightarrow> Inl e
              | Inr s' \<Rightarrow> Inr (ok (Message ''User signed up successfully''), s')))"

definition signup ::
  "(string \<Rightarrow> nat \<Rightarrow> string) \<Rightarrow> objectid \<Rightarrow> store \<Rightarrow> jbody \<Rightarrow> response \<times> store" where
  "signup bcrypt_hash fresh s b =
     (case signup_try bcrypt_hash fresh s b of
        Inr r \<Rightarrow> r
      | Inl e \<Rightarrow>
          (case e of
             ZodError issues \<Rightarrow> (reply 400 (MessageErrors ''Validation error'' issues), s)
           | _ \<Rightarrow>
               if isMongoError e \<and> error_code e = Some 11000
               then (reply 409 (Message ''Username already exists''), s)
               else (reply 500 (Message ''Internal server error''), s)))"

definition signin_try ::
  "(string \<Rightarrow> string \<Rightarrow> bool) \<Rightarrow> (jwt_payload \<Rightarrow> string \<Rightarrow> string) \<Rightarrow> string option \<Rightarrow>
   store \<Rightarrow> jbody \<Rightarrow> error + response" where
  "signin_try bcrypt_compare jwt_sign env s b =
     (case signinSchema b of
        Inl issues \<Rightarrow> Inl (ZodError issues)
      | Inr (uname, pword) \<Rightarrow>
          (case findOne (\<lambda>u. username u = uname) (users s) of
             None \<Rightarrow> Inr (reply 403 (Message ''Invalid credentials''))
           | Some existingUser \<Rightarrow>
               (let isPasswordValid =
                      bcrypt_compare pword
                        (if password existingUser = [] then [] else password existingUser)
                in if isPasswordValid
                   then Inr (ok (Token (jwt_sign [(''id'', user_id existingUser)] (JWT_PASSWORD env))))
                   else Inr (reply 403 (Message ''Invalid credentials'')))))"

definition signin ::
  "(string \<Rightarrow> string \<Rightarrow> bool) \<Rightarrow> (jwt_payload \<Rightarrow> string \<Rightarrow> string) \<Rightarrow> string option \<Rightarrow>
   store \<Rightarrow> jbody \<Rightarrow> response" where
  "signin bcrypt_compare jwt_sign env s b =
     (case signin_try bcrypt_compare jwt_sign env s b of
        Inr r \<Rightarrow> r
      | Inl e \<Rightarrow>
          (case e of
             ZodError issues \<Rightarrow> reply 400 (MessageErrors ''Validation error'' issues)
           | _ \<Rightarrow> reply 500 (Message ''Internal server error'')))"

section \<open>Content Store Access (the two delete endpoints)\<close>

text \<open>\<open>/^[0-9a-fA-F]{24}$/\<close>: exactly 24 hexadecimal digits.\<close>

definition isHexDigit :: "char \<Rightarrow> bool" where
  "isHexDigit c = (c \<in> set ''0123456789abcdefABCDEF'')"

definition matches_objectid :: "string \<Rightarrow> bool" where
  "matches_objectid s = (length s = 24 \<and> list_all isHexDigit s)"

text \<open>
  The store casts the value a filter gives for an ObjectId path.  A string of 24
  hexadecimal digits, upper or lower case, is the identifier with those digits, which
  the store prints in lower case; any other string does not cast, and the query throws.
\<close>

definition hex_lower :: "char \<Rightarrow> char" where
  "hex_lower c =
     (if c = CHR ''A'' then CHR ''a'' else if c = CHR ''B'' then CHR ''b''
      else if c = CHR ''C'' then CHR ''c'' else if c = CHR ''D'' then CHR ''d''
      else if c = CHR ''E'' then CHR ''e'' else if c = CHR ''F'' then CHR ''f''
      else c)"

definition castObjectId :: "string \<Rightarrow> objectid option" where
  "castObjectId v =
     (if length v = 24 \<and> list_all isHexDigit v then Some (map hex_lower v) else None)"

text \<open>
  \<open>ContentModel.deleteOne({_id: v, userId: w})\<close>: both values are cast, then the first
  document with that identifier and that owner is removed.  The result is the number of
  documents removed, or the error thrown.  \<open>w\<close> is \<open>req.userId\<close>, what the middleware
  bound, possibly nothing; every stored document has an owner, so a filter without one
  matches no document.
\<close>

definition ContentModel_deleteOne ::
  "string \<Rightarrow> string option \<Rightarrow> store \<Rightarrow> (error + nat) \<times> store" where
  "ContentModel_deleteOne v w s =
     (case castObjectId v of
        None \<Rightarrow> (Inl CastError, s)
      | Some i \<Rightarrow>
          (case w of
             None \<Rightarrow> (Inr 0, s)
           | Some w' \<Rightarrow>
               (case castObjectId w' of
                  None \<Rightarrow> (Inl CastError, s)
                | Some a \<Rightarrow>
                    (Inr (fst (deleteOne (\<lambda>c. content_id c = i \<and> content_userId c = a)
                                 (contents s))),
                     s\<lparr>contents :=
                         snd (deleteOne (\<lambda>c. content_id c = i \<and> content_userId c = a)
                                (contents s))\<rparr>))))"

text \<open>
  A handler suspends only where it awaits the store; other requests run before such a
  call and after it, never inside it.  So a handler is a sequence of store calls, each
  atomic, that ends in a response: \<open>Await call k\<close> makes the call and goes on with \<open>k\<close> on
  its result.  \<open>run\<close> executes a handler among other requests: before each call of the
  handler the store is changed by the next of \<open>others\<close>, if there is one.
\<close>

datatype 'a handler =
  Respond response
  | Await "store \<Rightarrow> 'a \<times> store" "'a \<Rightarrow> 'a handler"

primrec run :: "'a handler \<Rightarrow> (store \<Rightarrow> store) list \<Rightarrow> store \<Rightarrow> response \<times> store" where
  "run (Respond r) = (\<lambda>others s. (r, s))"
| "run (Await call k) =
     (\<lambda>others s.
        case call (case others of [] \<Rightarrow> s | f # fs \<Rightarrow> f s) of
          (result, s') \<Rightarrow> run (k result) (tl others) s')"

text \<open>
  The two delete endpoints.  Each makes one store call, with the one filter
  \<open>{_id: contentId, userId: req.userId}\<close>; what the call throws is caught and answered
  500.  The handler alone is its run with no other request in between.
\<close>

definition delete_content_param_steps :: "objectid option \<Rightarrow> string \<Rightarrow> (error + nat) handler" where
  "delete_content_param_steps userId contentId =
     (if \<not> matches_objectid contentId
      then Respond (reply 400 (Message ''Invalid content ID format''))
      else
        Await (ContentModel_deleteOne contentId userId)
          (\<lambda>result.
             case result of
               Inr deletedCount \<Rightarrow>
                 if deletedCount = 0
                 then Respond (reply 404 (Message ''Content not found or not authorized to delete''))
                 else Respond (ok (Message ''Content deleted successfully''))
             | Inl e \<Rightarrow> Respond (reply 500 (Message ''Failed to delete content''))))"

definition delete_content_param :: "store \<Rightarrow> objectid option \<Rightarrow> string \<Rightarrow> response \<times> store" where
  "delete_content_param s userId contentId = run (delete_content_param_steps userId contentId) [] s"

definition delete_content_body_steps :: "objectid option \<Rightarrow> jbody \<Rightarrow> (error + nat) handler" where
  "delete_content_body_steps userId b =
     (case deleteContentSchema b of
        Inl issues \<Rightarrow> Respond (reply 400 (MessageErrors ''Validation error'' issues))
      | Inr contentId \<Rightarrow>
          if \<not> matches_objectid contentId
          then Respond (reply 400 (Message ''Invalid content ID format''))
          else
            Await (ContentModel_deleteOne contentId userId)
              (\<lambda>result.
                 case result of
                   Inr deletedCount \<Rightarrow>
                     if deletedCount = 0
                     then Respond
                            (reply 404 (Message ''Content not found or not authorized to delete''))
                     else Respond (ok (Message ''Content deleted successfully''))
                 | Inl e \<Rightarrow>
                     (case e of
                        ZodError issues \<Rightarrow>
                          Respond (reply 400 (MessageErrors ''Validation error'' issues))
                      | _ \<Rightarrow> Respond (reply 500 (Message ''Failed to delete content'')))))"

definition delete_content_body :: "store \<Rightarrow> objectid option \<Rightarrow> jbody \<Rightarrow> response \<times> store" where
  "delete_content_body s userId b = run (delete_content_body_steps userId b) [] s"

text \<open>
  For comparison only, the design the spec rules out: look the record up by its
  identifier, check that the requester owns it, then delete by the identifier alone.
\<close>

definition check_then_act_steps :: "objectid \<Rightarrow> objectid \<Rightarrow> (content option + nat) handler" where
  "check_then_act_steps a i =
     Await (\<lambda>s. (Inl (findOne (\<lambda>c. content_id c = i) (contents s)), s))
       (\<lambda>found.
          case found of
            Inl (Some c) \<Rightarrow>
              if content_userId c = a
              then Await
                     (\<lambda>s. (Inr (fst (deleteOne (\<lambda>c. content_id c = i) (contents s))),
                            s\<lparr>contents := snd (deleteOne (\<lambda>c. content_id c = i) (contents s))\<rparr>))
                     (\<lambda>deleted. Respond (ok (Message ''Content deleted successfully'')))
              else Respond (reply 404 (Message ''Content not found or not authorized to delete''))
          | _ \<Rightarrow> Respond (reply 404 (Message ''Content not found or not authorized to delete'')))"

section \<open>Share Link Manager\<close>

text \<open>
  The link filters take the identity as the middleware bound it: the \<open>_id\<close> of the user
  the token was issued to, which is in the store's form.
\<close>

text \<open>
  Modelled from the spec: the alphabet of \<open>random\<close> in \<open>./utils\<close>, which is not among the
  sources.  The spec has the code drawn from an alphanumeric alphabet, a space of 62 to
  the power of the length.
\<close>

definition alphanumeric :: string where
  "alphanumeric = ''ABCDEFGHIJKLMNOPQRSTUVWXYZabcdefghijklmnopqrstuvwxyz0123456789''"

text \<open>
  Modelled from the spec: \<open>random\<close> of \<open>./utils\<close>, which is not among the sources.  The
  spec has it generate a code of the requested fixed length over that alphabet.  The
  second argument is the random draw, read as base-62 digits.
\<close>

fun random :: "nat \<Rightarrow> nat \<Rightarrow> string" where
  "random 0 draw = []"
| "random (Suc n) draw = (alphanumeric ! (draw mod 62)) # random n (draw div 62)"

definition share_try ::
  "nat \<Rightarrow> store \<Rightarrow> objectid option \<Rightarrow> jbody \<Rightarrow> error + (response \<times> store)" where
  "share_try draw s userId b =
     (case shareSchema b of
        Inl issues \<Rightarrow> Inl (ZodError issues)
      | Inr share \<Rightarrow>
          if share then
            (case findOne (\<lambda>l. Some (link_userId l) = userId) (links s) of
               Some existingLink \<Rightarrow> Inr (ok (Hash (hash existingLink)), s)
             | None \<Rightarrow>
                 (let h = random 10 draw
                  in case LinkModel_create s h userId of
                       Inl e \<Rightarrow> Inl e
                     | Inr s' \<Rightarrow> Inr (ok (Hash h), s')))
          else
            Inr (ok (Message ''Removed link''),
                 s\<lparr>links := snd (deleteOne (\<lambda>l. Some (link_userId l) = userId) (links s))\<rparr>))"

definition share :: "nat \<Rightarrow> store \<Rightarrow> objectid option \<Rightarrow> jbody \<Rightarrow> response \<times> store" where
  "share draw s userId b =
     (case share_try draw s userId b of
        Inr r \<Rightarrow> r
      | Inl e \<Rightarrow>
          (case e of
             ZodError issues \<Rightarrow> (reply 400 (MessageErrors ''Validation error'' issues), s)
           | _ \<Rightarrow> (reply 500 (Message ''Failed to process share request''), s)))"

definition resolve_try :: "store \<Rightarrow> string \<Rightarrow> error + response" where
  "resolve_try s h =
     (if h = [] \<or> length h \<noteq> 10
      then Inr (reply 400 (Message ''Invalid share link format''))
      else
        (case findOne (\<lambda>l. hash l = h) (links s) of
           None \<Rightarrow> Inr (reply 404 (Message ''Share link not found''))
         | Some l \<Rightarrow>
             (let content = find_all (\<lambda>c. content_userId c = link_userId l) (contents s)
              in case findOne (\<lambda>u. user_id u = link_userId l) (users s) of
                   None \<Rightarrow> Inr (reply 404 (Message ''User not found''))
                 | Some u \<Rightarrow> Inr (ok (Brain (username u) content)))))"

definition resolve :: "store \<Rightarrow> string \<Rightarrow> response" where
  "resolve s h =
     (case resolve_try s h of
        Inr r \<Rightarrow> r
      | Inl e \<Rightarrow> reply 500 (Message ''Failed to fetch shared brain''))"

section \<open>The token library at its boundary\<close>

text \<open>
  What \<open>jsonwebtoken\<close> does with the one call \<open>signin\<close> makes, \<open>jwt.sign({id}, secret)\<close>
  with no option: it adds the time of signing as the claim \<open>iat\<close> and sets no \<open>exp\<close>.  With
  neither \<open>exp\<close> nor \<open>nbf\<close> in the payload \<open>jwt.verify\<close> has nothing to hold against the
  clock: under the same secret it yields the payload as signed at every time, here the
  first argument of the verifier.
\<close>

definition jwt_contract ::
  "(jwt_payload \<Rightarrow> string \<Rightarrow> string) \<Rightarrow> (nat \<Rightarrow> string \<Rightarrow> string \<Rightarrow> jwt_decoded option) \<Rightarrow> bool" where
  "jwt_contract jsign jverify =
     (\<forall>i k. \<exists>iat. \<forall>now.
        jverify now (jsign [(''id'', i)] k) k = Some (JwtObject [(''id'', i), (''iat'', iat)]))"

section \<open>Example data\<close>

text \<open>
  Two users, one saved item each, and a share link of the first user; a store in which
  that user owns two links, and one in which the link's owner has no user document.
\<close>

definition alice_id :: objectid where
  "alice_id = ''507f1f77bcf86cd799439011''"

definition bob_id :: objectid where
  "bob_id = ''507f191e810c19729de860ea''"

definition alice :: user where
  "alice = \<lparr>user_id = alice_id, username = ''alice'', password = ''$2b$10$secret1''\<rparr>"

definition bob :: user where
  "bob = \<lparr>user_id = bob_id, username = ''bob'', password = ''$2b$10$hunter2''\<rparr>"

definition bobs_item :: content where
  "bobs_item = \<lparr>content_id = ''65a1b2c3d4e5f60718293a4b'', link = ''https://x.com/1'',
     ctype = ''twitter'', title = ''t'', content_userId = bob_id, tags = []\<rparr>"

definition alices_item :: content where
  "alices_item = \<lparr>content_id = ''65a1b2c3d4e5f60718293a4c'', link = ''https://example.org/post'',
     ctype = ''blog'', title = ''notes'', content_userId = alice_id, tags = []\<rparr>"

definition alices_link :: sharelink where
  "alices_link = \<lparr>hash = ''Xk3mP9qRt2'', link_userId = alice_id\<rparr>"

definition demo_store :: store where
  "demo_store =
     \<lparr>users = [alice, bob], contents = [bobs_item, alices_item], links = [alices_link]\<rparr>"

definition two_links_store :: store where
  "two_links_store =
     demo_store\<lparr>links := [alices_link, \<lparr>hash = ''Zz8yW7vU6t'', link_userId = alice_id\<rparr>]\<rparr>"

definition dangling_store :: store where
  "dangling_store = demo_store\<lparr>users := [bob]\<rparr>"

text \<open>
  A small instance of the three library interfaces, to run the handlers on concrete
  requests.  It has the interfaces' shape and none of their cryptography: a digest is
  the password behind a fixed prefix, a token is the secret followed by a tag and the
  identity, and every token is stamped with the same time of signing.
\<close>

definition sample_hash :: "string \<Rightarrow> nat \<Rightarrow> string" where
  "sample_hash p rounds = ''$2b$10$'' @ p"

definition sample_compare :: "string \<Rightarrow> string \<Rightarrow> bool" where
  "sample_compare p h = (h = ''$2b$10$'' @ p)"

definition sample_sign :: "jwt_payload \<Rightarrow> string \<Rightarrow> string" where
  "sample_sign p k = k @ (case map_of p ''id'' of None \<Rightarrow> ''-'' | Some i \<Rightarrow> CHR ''+'' # i)"

definition sample_verify :: "nat \<Rightarrow> string \<Rightarrow> string \<Rightarrow> jwt_decoded option" where
  "sample_verify now t k =
     (if take (length k) t = k then
        (case drop (length k) t of
           [] \<Rightarrow> None
         | c # r \<Rightarrow>
             if c = CHR ''+'' then Some (JwtObject [(''id'', r), (''iat'', ''1700000000'')])
             else if c = CHR ''-'' then Some (JwtObject [])
             else if c = CHR ''s'' then Some (JwtString r)
             else None)
      else None)"

section \<open>Auxiliary lemmas\<close>

subsection \<open>Store primitives\<close>




lemma deleteOne_tl: "filter P (snd (deleteOne P xs)) = tl (filter P xs)"
  by (induction xs) auto

lemma findOne_None: "(findOne P xs = None) = (filter P xs = [])"
  unfolding findOne_def by (induction xs) auto

lemma findOne_Some: "findOne P xs = Some x \<Longrightarrow> P x \<and> x \<in> set xs"
  unfolding findOne_def by (induction xs) (auto split: if_splits)

lemma deleteOne_remove1:
  assumes "findOne P xs = Some l"
  shows "snd (deleteOne P xs) = remove1 l xs"
proof -
  from assms have "P l" by (auto dest: findOne_Some)
  with assms show ?thesis
    unfolding findOne_def by (induction xs) (auto split: if_splits)
qed

lemma findOne_append_new: "findOne P xs = None \<Longrightarrow> P y \<Longrightarrow> findOne P (xs @ [y]) = Some y"
  unfolding findOne_def by (induction xs) (auto split: if_splits)

subsection \<open>The delete handler and the cast\<close>







subsection \<open>Schemas\<close>

lemma z_string_Inr:
  "z_string cs path v = Inr x \<Longrightarrow>
     v = Some (JString x) \<and> concat (map (run_check path x) cs) = []"
  by (auto simp: z_string_def split: option.splits json.splits list.splits)

lemma z_object2_Inr: "z_object2 ra rb = Inr (a, b) \<Longrightarrow> ra = Inr a \<and> rb = Inr b"
  by (auto simp: z_object2_def split: sum.splits)

lemma signupSchema_Inr:
  "signupSchema b = Inr (u, p) \<Longrightarrow>
     map_of b ''username'' = Some (JString u) \<and> map_of b ''password'' = Some (JString p) \<and>
     3 \<le> length u \<and> length u \<le> 50 \<and> 6 \<le> length p \<and> length p \<le> 100"
  unfolding signupSchema_def
  by (auto dest!: z_object2_Inr z_string_Inr split: if_splits)

subsection \<open>The share code\<close>

lemma random_numeral:
  "random (numeral k) d = (alphanumeric ! (d mod 62)) # random (pred_numeral k) (d div 62)"
proof -
  have "numeral k = Suc (pred_numeral k)" by (rule numeral_eq_Suc)
  then show ?thesis by (simp only: random.simps)
qed

lemma length_random: "length (random n d) = n"
  by (induction n arbitrary: d) auto

subsection \<open>Handlers on validated input\<close>

lemma signin_valid:
  "signinSchema b = Inr (u, p) \<Longrightarrow>
   signin bcompare jsign env s b =
     (case findOne (\<lambda>x. username x = u) (users s) of
        None \<Rightarrow> reply 403 (Message ''Invalid credentials'')
      | Some x \<Rightarrow> if bcompare p (password x)
                  then ok (Token (jsign [(''id'', user_id x)] (JWT_PASSWORD env)))
                  else reply 403 (Message ''Invalid credentials''))"
  by (simp add: signin_def signin_try_def Let_def split: option.split)

lemma signin_invalid:
  "signinSchema b = Inl issues \<Longrightarrow>
   signin bcompare jsign env s b = reply 400 (MessageErrors ''Validation error'' issues)"
  by (simp add: signin_def signin_try_def)

lemma signup_store:
  "snd (signup H fresh s b) = s \<or>
   (\<exists>u p. signupSchema b = Inr (u, p) \<and> u \<notin> set (map username (users s)) \<and>
      snd (signup H fresh s b) =
        s\<lparr>users := users s @ [\<lparr>user_id = fresh, username = u, password = H p 10\<rparr>]\<rparr>)"
  by (auto simp: signup_def signup_try_def UserModel_create_def Let_def
      split: sum.splits error.splits prod.splits if_splits)

lemma share_enable_existing:
  "shareSchema b = Inr True \<Longrightarrow> findOne (\<lambda>l. link_userId l = A) (links s) = Some l \<Longrightarrow>
   share d s (Some A) b = (ok (Hash (hash l)), s)"
  by (simp add: share_def share_try_def)

lemma share_enable_new:
  assumes "shareSchema b = Inr True"
    and "findOne (\<lambda>l. link_userId l = A) (links s) = None"
  shows "share d s (Some A) b =
     (ok (Hash (random 10 d)), s\<lparr>links := links s @ [\<lparr>hash = random 10 d, link_userId = A\<rparr>]\<rparr>)"
proof -
  have "random 10 d \<noteq> []" using length_random [of 10 d] by auto
  with assms show ?thesis
    by (simp add: share_def share_try_def LinkModel_create_def Let_def)
qed

lemma share_disable:
  "shareSchema b = Inr False \<Longrightarrow>
   share d s (Some A) b =
     (ok (Message ''Removed link''),
      s\<lparr>links := snd (deleteOne (\<lambda>l. link_userId l = A) (links s))\<rparr>)"
  by (simp add: share_def share_try_def)

lemma share_code_length:
  assumes "\<forall>l\<in>set (links s). length (hash l) = 10"
  shows "\<forall>l\<in>set (links (snd (share d s uid b))). length (hash l) = 10"
proof -
  have del: "set (snd (deleteOne P xs)) \<subseteq> set xs" for P and xs :: "sharelink list"
    by (induction xs) auto
  show ?thesis
    using assms del [of "\<lambda>l. Some (link_userId l) = uid" "links s"]
    by (auto simp: share_def share_try_def LinkModel_create_def Let_def length_random
        split: sum.splits error.splits option.splits if_splits)
qed

lemma resolve_bad_length:
  "length c \<noteq> 10 \<Longrightarrow> resolve s c = reply 400 (Message ''Invalid share link format'')"
  by (auto simp: resolve_def resolve_try_def)

lemma resolve_lookup:
  "length c = 10 \<Longrightarrow>
   resolve s c =
     (case findOne (\<lambda>l. hash l = c) (links s) of
        None \<Rightarrow> reply 404 (Message ''Share link not found'')
      | Some l \<Rightarrow>
          (case findOne (\<lambda>u. user_id u = link_userId l) (users s) of
             None \<Rightarrow> reply 404 (Message ''User not found'')
           | Some u \<Rightarrow>
               ok (Brain (username u)
                     (filter (\<lambda>x. content_userId x = link_userId l) (contents s)))))"
  by (auto simp: resolve_def resolve_try_def find_all_def Let_def split: option.splits)


section \<open>Identity Verifier: the outcomes of the middleware\<close>

text \<open>
  Claim C1, as the code has it.  The middleware ends in exactly one of four ways.
  If the authorization header is absent or the empty string, it rejects with 401,
  "Authorization header is required".  If the header is non-empty and the token (the
  header without a leading "Bearer ") fails verification, it rejects with 401, "Invalid
  or expired token".  If the token verifies and its payload is a bare string, it rejects
  with 403 ("Invalid token format"; "You are not logged in" for the empty string).
  Otherwise it binds the payload's \<open>id\<close> claim to the request and proceeds.
\<close>

theorem userMiddleware_outcomes:
  "(header = None \<or> header = Some [] \<longrightarrow>
      userMiddleware V env header =
        Reject \<lparr>status = 401, body = Message ''Authorization header is required''\<rparr>) \<and>
   (\<forall>h. header = Some h \<and> h \<noteq> [] \<and> V (bearer_token h) (JWT_PASSWORD env) = None \<longrightarrow>
      userMiddleware V env header =
        Reject \<lparr>status = 401, body = Message ''Invalid or expired token''\<rparr>) \<and>
   (\<forall>h str. header = Some h \<and> h \<noteq> [] \<and>
        V (bearer_token h) (JWT_PASSWORD env) = Some (JwtString str) \<longrightarrow>
      userMiddleware V env header =
        Reject \<lparr>status = 403,
                body = Message (if str = [] then ''You are not logged in''
                                else ''Invalid token format'')\<rparr>) \<and>
   (\<forall>h p. header = Some h \<and> h \<noteq> [] \<and>
        V (bearer_token h) (JWT_PASSWORD env) = Some (JwtObject p) \<longrightarrow>
      userMiddleware V env header = Next (map_of p ''id''))"
  by (auto simp: userMiddleware_def reply_def)

text \<open>The four outcomes on four requests: no header, a garbage token, a string payload,
  and a token for the first user.\<close>

theorem userMiddleware_outcomes_witness:
  "userMiddleware (sample_verify 0) None None =
     Reject \<lparr>status = 401, body = Message ''Authorization header is required''\<rparr> \<and>
   userMiddleware (sample_verify 0) None (Some ''Bearer garbage'') =
     Reject \<lparr>status = 401, body = Message ''Invalid or expired token''\<rparr> \<and>
   userMiddleware (sample_verify 0) None (Some ''!123123shello'') =
     Reject \<lparr>status = 403, body = Message ''Invalid token format''\<rparr> \<and>
   userMiddleware (sample_verify 0) None (Some ''Bearer !123123+507f1f77bcf86cd799439011'') =
     Next (Some ''507f1f77bcf86cd799439011'')"
  using userMiddleware_outcomes [of None "sample_verify 0" None]
    userMiddleware_outcomes [of "Some ''Bearer garbage''" "sample_verify 0" None]
    userMiddleware_outcomes [of "Some ''!123123shello''" "sample_verify 0" None]
    userMiddleware_outcomes [of "Some ''Bearer !123123+507f1f77bcf86cd799439011''"
      "sample_verify 0" None]
  by (simp add: sample_verify_def bearer_token_def JWT_PASSWORD_def)

text \<open>
  The header is present but empty: its token fails verification, and the answer is the
  one for a missing header, not "Invalid or expired token".
\<close>

theorem userMiddleware_empty_header_counterexample:
  "sample_verify 0 (bearer_token []) (JWT_PASSWORD None) = None \<and>
   userMiddleware (sample_verify 0) None (Some []) =
     Reject \<lparr>status = 401, body = Message ''Authorization header is required''\<rparr> \<and>
   userMiddleware (sample_verify 0) None (Some []) \<noteq>
     Reject \<lparr>status = 401, body = Message ''Invalid or expired token''\<rparr>"
  by (simp add: sample_verify_def bearer_token_def JWT_PASSWORD_def userMiddleware_def reply_def)

section \<open>Content Store Access: the owner-scoped delete\<close>



text \<open>
  The check before the act does not give this.  The first user's item is looked up
  and found to be the first user's; before the delete by identifier the store comes to
  hold a record of the second user under that identifier, and that record is removed.
  The handler of the code, started when the store already holds that record, answers 404
  and leaves it.
\<close>

lemma check_then_act_race:
  "contents (snd (run (check_then_act_steps alice_id (content_id alices_item))
       [\<lambda>s. s, \<lambda>s. s\<lparr>contents := [bobs_item\<lparr>content_id := content_id alices_item\<rparr>]\<rparr>]
       demo_store)) = [] \<and>
   run (delete_content_param_steps (Some alice_id) (content_id alices_item))
       [\<lambda>s. s\<lparr>contents := [bobs_item\<lparr>content_id := content_id alices_item\<rparr>]\<rparr>]
       demo_store =
     (\<lparr>status = 404, body = Message ''Content not found or not authorized to delete''\<rparr>,
      demo_store\<lparr>contents := [bobs_item\<lparr>content_id := content_id alices_item\<rparr>]\<rparr>)"
  by (simp add: check_then_act_steps_def delete_content_param_steps_def ContentModel_deleteOne_def
      castObjectId_def matches_objectid_def isHexDigit_def hex_lower_def findOne_def
      demo_store_def alices_item_def bobs_item_def alice_id_def bob_id_def reply_def ok_def)

section \<open>Credential Issuer: the two failures of signin\<close>

text \<open>
  Claim C3, as the code has it.  For every pair of signin requests that pass the input
  validation (username and password non-empty strings), one naming an existing user with
  a wrong password and one naming a user that does not exist, both answers are 403
  "Invalid credentials", identical to the caller.  A request that fails the validation
  is answered 400 before any lookup, whatever the store holds.
\<close>

theorem signin_failure_parity:
  "(signinSchema b1 = Inr (u1, p1) \<and> signinSchema b2 = Inr (u2, p2) \<and>
    findOne (\<lambda>x. username x = u1) (users s) = Some x1 \<and> \<not> bcompare p1 (password x1) \<and>
    findOne (\<lambda>x. username x = u2) (users s) = None \<longrightarrow>
      signin bcompare jsign env s b1 = \<lparr>status = 403, body = Message ''Invalid credentials''\<rparr> \<and>
      signin bcompare jsign env s b2 = \<lparr>status = 403, body = Message ''Invalid credentials''\<rparr>) \<and>
   (\<forall>issues s'. signinSchema b1 = Inl issues \<longrightarrow>
      signin bcompare jsign env s b1 =
        \<lparr>status = 400, body = MessageErrors ''Validation error'' issues\<rparr> \<and>
      signin bcompare jsign env s' b1 = signin bcompare jsign env s b1)"
  by (auto simp: signin_valid signin_invalid reply_def)

text \<open>A wrong password for the first user, a user nobody has signed up, and a body
  without a password.\<close>

theorem signin_failure_parity_witness:
  "signin sample_compare sample_sign None demo_store
     [(''username'', JString ''alice''), (''password'', JString ''wrong'')] =
     \<lparr>status = 403, body = Message ''Invalid credentials''\<rparr> \<and>
   signin sample_compare sample_sign None demo_store
     [(''username'', JString ''carol''), (''password'', JString ''secret1'')] =
     \<lparr>status = 403, body = Message ''Invalid credentials''\<rparr> \<and>
   signin sample_compare sample_sign None demo_store [(''username'', JString ''alice'')] =
     \<lparr>status = 400, body = MessageErrors ''Validation error'' [InvalidType ''password'']\<rparr>"
  using signin_failure_parity [of
      "[(''username'', JString ''alice''), (''password'', JString ''wrong'')]"
      "''alice''" "''wrong''"
      "[(''username'', JString ''carol''), (''password'', JString ''secret1'')]"
      "''carol''" "''secret1''" demo_store alice sample_compare sample_sign None]
    signin_failure_parity [of "[(''username'', JString ''alice'')]" u1 p1 b2 u2 p2 demo_store x1
      sample_compare sample_sign None]
  by (simp add: signinSchema_def z_object2_def z_string_def findOne_def demo_store_def
      alice_def bob_def sample_compare_def)

text \<open>
  The first user exists and the empty password is wrong, the other user does not exist:
  the first answer is 400, the second 403.
\<close>

theorem signin_empty_password_counterexample:
  "''alice'' \<in> set (map username (users demo_store)) \<and>
   \<not> sample_compare [] (password alice) \<and>
   ''carol'' \<notin> set (map username (users demo_store)) \<and>
   status (signin sample_compare sample_sign None demo_store
     [(''username'', JString ''alice''), (''password'', JString [])]) = 400 \<and>
   status (signin sample_compare sample_sign None demo_store
     [(''username'', JString ''carol''), (''password'', JString ''secret1'')]) = 403"
  by (simp add: signin_def signin_try_def signinSchema_def z_object2_def z_string_def findOne_def
      demo_store_def alice_def bob_def sample_compare_def reply_def)

section \<open>Share Link Manager: enabling\<close>

text \<open>
  Claim C4.  For every user, enabling sharing when the user already has a share link
  answers with that link's code and leaves the store as it is.  Hence two enable calls
  in sequence by the same user give the same answer, a 200 with the same code, and the
  store after the second call is the store after the first.  The code has 10 characters
  when the first call generated it, and when every stored code has.
\<close>

theorem share_enable_idempotent:
  assumes "shareSchema b1 = Inr True" and "shareSchema b2 = Inr True"
  shows "(\<forall>l. findOne (\<lambda>l. link_userId l = A) (links s) = Some l \<longrightarrow>
            share d1 s (Some A) b1 = (\<lparr>status = 200, body = Hash (hash l)\<rparr>, s)) \<and>
         share d2 (snd (share d1 s (Some A) b1)) (Some A) b2 = share d1 s (Some A) b1 \<and>
         (\<exists>h. fst (share d1 s (Some A) b1) = \<lparr>status = 200, body = Hash h\<rparr> \<and>
              (findOne (\<lambda>l. link_userId l = A) (links s) = None \<longrightarrow>
                 h = random 10 d1 \<and> length h = 10) \<and>
              ((\<forall>l\<in>set (links s). length (hash l) = 10) \<longrightarrow> length h = 10))"
proof (cases "findOne (\<lambda>l. link_userId l = A) (links s)")
  case None
  let ?new = "\<lparr>hash = random 10 d1, link_userId = A\<rparr>"
  let ?s1 = "s\<lparr>links := links s @ [?new]\<rparr>"
  have first: "share d1 s (Some A) b1 = (ok (Hash (random 10 d1)), ?s1)"
    using assms(1) None by (rule share_enable_new)
  have "findOne (\<lambda>l. link_userId l = A) (links ?s1) = Some ?new"
    using None by (simp add: findOne_append_new)
  with assms(2) have "share d2 ?s1 (Some A) b2 = (ok (Hash (hash ?new)), ?s1)"
    by (rule share_enable_existing)
  with first None show ?thesis
    by (simp add: ok_def reply_def length_random)
next
  case (Some l)
  have first: "share d1 s (Some A) b1 = (ok (Hash (hash l)), s)"
    using assms(1) Some by (rule share_enable_existing)
  have second: "share d2 s (Some A) b2 = (ok (Hash (hash l)), s)"
    using assms(2) Some by (rule share_enable_existing)
  from Some have "l \<in> set (links s)" by (auto dest: findOne_Some)
  with first second Some show ?thesis
    by (simp add: ok_def reply_def)
qed

text \<open>
  The second user, who has no link, enables twice with different draws: the code of the
  first draw both times, one new record.  The first user, who has a link, gets its code.
\<close>

theorem share_enable_idempotent_witness:
  "share 12345 demo_store (Some bob_id) [(''share'', JBool True)] =
     (\<lparr>status = 200, body = Hash ''HNDAAAAAAA''\<rparr>,
      demo_store\<lparr>links := [alices_link, \<lparr>hash = ''HNDAAAAAAA'', link_userId = bob_id\<rparr>]\<rparr>) \<and>
   share 777 (snd (share 12345 demo_store (Some bob_id) [(''share'', JBool True)])) (Some bob_id)
       [(''share'', JBool True)] =
     (\<lparr>status = 200, body = Hash ''HNDAAAAAAA''\<rparr>,
      demo_store\<lparr>links := [alices_link, \<lparr>hash = ''HNDAAAAAAA'', link_userId = bob_id\<rparr>]\<rparr>) \<and>
   share 777 demo_store (Some alice_id) [(''share'', JBool True)] =
     (\<lparr>status = 200, body = Hash ''Xk3mP9qRt2''\<rparr>, demo_store)"
proof -
  have v: "shareSchema [(''share'', JBool True)] = Inr True"
    by (simp add: shareSchema_def z_boolean_def)
  have r: "random 10 12345 = ''HNDAAAAAAA''"
    by (simp add: random_numeral alphanumeric_def)
  have n: "findOne (\<lambda>l. link_userId l = bob_id) (links demo_store) = None"
    by (simp add: findOne_def demo_store_def alices_link_def alice_id_def bob_id_def)
  have a: "findOne (\<lambda>l. link_userId l = alice_id) (links demo_store) = Some alices_link"
    by (simp add: findOne_def demo_store_def alices_link_def)
  from share_enable_idempotent [OF v v, of bob_id demo_store 12345 777] n r
  have "share 777 (snd (share 12345 demo_store (Some bob_id) [(''share'', JBool True)]))
          (Some bob_id) [(''share'', JBool True)] =
        share 12345 demo_store (Some bob_id) [(''share'', JBool True)]"
    and "fst (share 12345 demo_store (Some bob_id) [(''share'', JBool True)]) =
       \<lparr>status = 200, body = Hash ''HNDAAAAAAA''\<rparr>"
    by auto
  moreover have "snd (share 12345 demo_store (Some bob_id) [(''share'', JBool True)]) =
      demo_store\<lparr>links := [alices_link, \<lparr>hash = ''HNDAAAAAAA'', link_userId = bob_id\<rparr>]\<rparr>"
    using share_enable_new [OF v n, of 12345] r by (simp add: demo_store_def)
  moreover from share_enable_idempotent [OF v v, of alice_id demo_store 777 777] a
  have "share 777 demo_store (Some alice_id) [(''share'', JBool True)] =
     (\<lparr>status = 200, body = Hash ''Xk3mP9qRt2''\<rparr>, demo_store)"
    by (simp add: alices_link_def)
  ultimately show ?thesis
    by (metis prod.collapse)
qed

section \<open>Share Link Manager: disabling\<close>

text \<open>
  Claim C5 has disabling remove every share link of the user, so that none remains
  even if more than one existed.  The handler removes one, with \<open>deleteOne\<close>.  In a store
  where a user has two links that user disables sharing: the answer is the success
  "Removed link", the second link is still stored, and its code still resolves to the
  user's collection.
\<close>

theorem share_disable_leaves_second_link:
  "map link_userId (links two_links_store) = [alice_id, alice_id] \<and>
   fst (share 0 two_links_store (Some alice_id) [(''share'', JBool False)]) =
     \<lparr>status = 200, body = Message ''Removed link''\<rparr> \<and>
   links (snd (share 0 two_links_store (Some alice_id) [(''share'', JBool False)])) =
     [\<lparr>hash = ''Zz8yW7vU6t'', link_userId = alice_id\<rparr>] \<and>
   resolve (snd (share 0 two_links_store (Some alice_id) [(''share'', JBool False)]))
     ''Zz8yW7vU6t'' = \<lparr>status = 200, body = Brain ''alice'' [alices_item]\<rparr>"
  by (simp add: share_def share_try_def shareSchema_def z_boolean_def two_links_store_def
      demo_store_def alices_link_def resolve_def resolve_try_def findOne_def find_all_def
      alice_def bob_def alices_item_def bobs_item_def alice_id_def bob_id_def ok_def reply_def)

text \<open>So it is wherever a user has two links or more.\<close>

lemma share_disable_leaves_links:
  assumes "shareSchema b = Inr False"
    and "2 \<le> length (filter (\<lambda>l. link_userId l = A) (links s))"
  shows "fst (share d s (Some A) b) = \<lparr>status = 200, body = Message ''Removed link''\<rparr> \<and>
         filter (\<lambda>l. link_userId l = A) (links (snd (share d s (Some A) b))) \<noteq> []"
proof -
  have "filter (\<lambda>l. link_userId l = A) (links (snd (share d s (Some A) b))) =
      tl (filter (\<lambda>l. link_userId l = A) (links s))"
    using assms(1) by (simp add: share_disable deleteOne_tl)
  moreover have "tl (filter (\<lambda>l. link_userId l = A) (links s)) \<noteq> []"
    using assms(2) by (cases "filter (\<lambda>l. link_userId l = A) (links s)") auto
  ultimately show ?thesis
    using assms(1) by (simp add: share_disable ok_def reply_def)
qed

text \<open>
  Such a store arises when two enable requests of one user both look up before either
  creates: \<open>LinkSchema\<close> has no unique index, and both creates succeed.
\<close>

lemma enable_race_two_links:
  assumes "findOne (\<lambda>l. link_userId l = A) (links s) = None" and "h1 \<noteq> []" and "h2 \<noteq> []"
  shows "\<exists>s1 s2. LinkModel_create s h1 (Some A) = Inr s1 \<and>
           LinkModel_create s1 h2 (Some A) = Inr s2 \<and>
           filter (\<lambda>l. link_userId l = A) (links s2) =
             [\<lparr>hash = h1, link_userId = A\<rparr>, \<lparr>hash = h2, link_userId = A\<rparr>]"
  using assms by (simp add: LinkModel_create_def findOne_None)

section \<open>Share Link Manager: resolving\<close>

text \<open>
  Claim C6, as the code has it.  For every resolve request with code \<open>c\<close>, which carries
  no credential: if the length of \<open>c\<close> is not 10 the answer is 400 whatever the store
  holds, so before any lookup; if \<open>c\<close> has 10 characters and no share link has that code
  the answer is 404 "Share link not found", also for a code that was revoked (its owner,
  whose only link it was, disabled sharing); if a link with code \<open>c\<close> exists and its owner
  has a user document, the answer is 200 with the owner's username and all stored items
  of that owner.
\<close>

theorem resolve_outcomes:
  "(length c \<noteq> 10 \<longrightarrow>
      (\<forall>s'. resolve s' c = \<lparr>status = 400, body = Message ''Invalid share link format''\<rparr>)) \<and>
   (length c = 10 \<and> findOne (\<lambda>l. hash l = c) (links s) = None \<longrightarrow>
      resolve s c = \<lparr>status = 404, body = Message ''Share link not found''\<rparr>) \<and>
   (\<forall>l u. length c = 10 \<and> findOne (\<lambda>l. hash l = c) (links s) = Some l \<and>
           findOne (\<lambda>u. user_id u = link_userId l) (users s) = Some u \<longrightarrow>
      resolve s c =
        \<lparr>status = 200,
         body = Brain (username u)
                  (filter (\<lambda>x. content_userId x = link_userId l) (contents s))\<rparr>) \<and>
   (\<forall>l A b d. length c = 10 \<and> shareSchema b = Inr False \<and>
           findOne (\<lambda>l. link_userId l = A) (links s) = Some l \<and>
           filter (\<lambda>l. hash l = c) (links s) = [l] \<longrightarrow>
      resolve (snd (share d s (Some A) b)) c =
        \<lparr>status = 404, body = Message ''Share link not found''\<rparr>)"
proof (intro conjI impI allI)
  fix s' assume "length c \<noteq> 10"
  then show "resolve s' c = \<lparr>status = 400, body = Message ''Invalid share link format''\<rparr>"
    by (simp add: resolve_bad_length reply_def)
next
  assume "length c = 10 \<and> findOne (\<lambda>l. hash l = c) (links s) = None"
  then show "resolve s c = \<lparr>status = 404, body = Message ''Share link not found''\<rparr>"
    by (simp add: resolve_lookup reply_def)
next
  fix l u
  assume "length c = 10 \<and> findOne (\<lambda>l. hash l = c) (links s) = Some l \<and>
           findOne (\<lambda>u. user_id u = link_userId l) (users s) = Some u"
  then show "resolve s c =
        \<lparr>status = 200,
         body = Brain (username u)
                  (filter (\<lambda>x. content_userId x = link_userId l) (contents s))\<rparr>"
    by (simp add: resolve_lookup ok_def reply_def)
next
  fix l A b d
  assume h: "length c = 10 \<and> shareSchema b = Inr False \<and>
           findOne (\<lambda>l. link_userId l = A) (links s) = Some l \<and>
           filter (\<lambda>l. hash l = c) (links s) = [l]"
  then have "links (snd (share d s (Some A) b)) = remove1 l (links s)"
    by (simp add: share_disable deleteOne_remove1)
  then have "filter (\<lambda>l. hash l = c) (links (snd (share d s (Some A) b))) =
      remove1 l (filter (\<lambda>l. hash l = c) (links s))"
    by (simp add: filter_remove1)
  with h have "findOne (\<lambda>l. hash l = c) (links (snd (share d s (Some A) b))) = None"
    by (simp add: findOne_None)
  with h show "resolve (snd (share d s (Some A) b)) c =
        \<lparr>status = 404, body = Message ''Share link not found''\<rparr>"
    by (simp add: resolve_lookup reply_def)
qed

text \<open>A code of the wrong length, an unknown code, the first user's code, and that
  code after the first user has disabled sharing.\<close>

theorem resolve_outcomes_witness:
  "resolve demo_store ''short'' =
     \<lparr>status = 400, body = Message ''Invalid share link format''\<rparr> \<and>
   resolve demo_store ''0123456789'' =
     \<lparr>status = 404, body = Message ''Share link not found''\<rparr> \<and>
   resolve demo_store ''Xk3mP9qRt2'' = \<lparr>status = 200, body = Brain ''alice'' [alices_item]\<rparr> \<and>
   resolve (snd (share 0 demo_store (Some alice_id) [(''share'', JBool False)])) ''Xk3mP9qRt2'' =
     \<lparr>status = 404, body = Message ''Share link not found''\<rparr>"
  using resolve_outcomes [of "''short''" demo_store]
    resolve_outcomes [of "''0123456789''" demo_store]
    resolve_outcomes [of "''Xk3mP9qRt2''" demo_store, THEN conjunct2, THEN conjunct2,
      THEN conjunct1, rule_format, of alices_link alice]
    resolve_outcomes [of "''Xk3mP9qRt2''" demo_store, THEN conjunct2, THEN conjunct2,
      THEN conjunct2, rule_format, of "[(''share'', JBool False)]" alice_id alices_link 0]
  by (simp add: findOne_def demo_store_def alices_link_def alice_def bob_def alices_item_def
      bobs_item_def alice_id_def bob_id_def shareSchema_def z_boolean_def)

text \<open>
  A link with a code of 10 characters is stored, its owner has no user document: the
  answer is a 404, not the owner's username and collection.
\<close>

theorem resolve_dangling_link_counterexample:
  "length ''Xk3mP9qRt2'' = 10 \<and>
   ''Xk3mP9qRt2'' \<in> set (map hash (links dangling_store)) \<and>
   status (resolve dangling_store ''Xk3mP9qRt2'') = 404 \<and>
   status (resolve dangling_store ''Xk3mP9qRt2'') \<noteq> 200"
  by (simp add: resolve_def resolve_try_def findOne_def find_all_def dangling_store_def
      demo_store_def alices_link_def alice_def bob_def alice_id_def bob_id_def reply_def)

section \<open>Signup with a username that is taken\<close>

text \<open>
  Claim C7, as the code has it.  For every signup request that passes the input
  validation and whose username is that of an existing user, the answer is 409
  "Username already exists" and the store is unchanged (the digest of \<open>bcrypt.hash\<close> being
  non-empty, as the schema requires of a password).  For every signup request at all
  whose username is that of an existing user the store is unchanged, and no signup ever
  gives two users one username.  A request that fails the validation is answered 400,
  the store unchanged.
\<close>

theorem signup_duplicate_username:
  "(signupSchema b = Inr (u, p) \<and> u \<in> set (map username (users s)) \<and> H p 10 \<noteq> [] \<longrightarrow>
      signup H fresh s b = (\<lparr>status = 409, body = Message ''Username already exists''\<rparr>, s)) \<and>
   (map_of b ''username'' = Some (JString u) \<and> u \<in> set (map username (users s)) \<longrightarrow>
      snd (signup H fresh s b) = s) \<and>
   (distinct (map username (users s)) \<longrightarrow>
      distinct (map username (users (snd (signup H fresh s b))))) \<and>
   (\<forall>issues. signupSchema b = Inl issues \<longrightarrow>
      signup H fresh s b =
        (\<lparr>status = 400, body = MessageErrors ''Validation error'' issues\<rparr>, s))"
proof (intro conjI impI allI)
  assume h: "signupSchema b = Inr (u, p) \<and> u \<in> set (map username (users s)) \<and> H p 10 \<noteq> []"
  then have "3 \<le> length u" by (auto dest: signupSchema_Inr)
  then have "u \<noteq> []" by auto
  with h show "signup H fresh s b =
      (\<lparr>status = 409, body = Message ''Username already exists''\<rparr>, s)"
    by (simp add: signup_def signup_try_def UserModel_create_def Let_def isMongoError_def
        reply_def)
next
  assume h: "map_of b ''username'' = Some (JString u) \<and> u \<in> set (map username (users s))"
  from signup_store [of H fresh s b] show "snd (signup H fresh s b) = s"
  proof
    assume "snd (signup H fresh s b) = s"
    then show ?thesis .
  next
    assume "\<exists>u p. signupSchema b = Inr (u, p) \<and> u \<notin> set (map username (users s)) \<and>
      snd (signup H fresh s b) =
        s\<lparr>users := users s @ [\<lparr>user_id = fresh, username = u, password = H p 10\<rparr>]\<rparr>"
    then obtain u' p' where
      *: "signupSchema b = Inr (u', p')" "u' \<notin> set (map username (users s))"
      by blast
    from *(1) have "map_of b ''username'' = Some (JString u')"
      by (auto dest: signupSchema_Inr)
    with h *(2) show ?thesis by simp
  qed
next
  assume d: "distinct (map username (users s))"
  from signup_store [of H fresh s b]
  show "distinct (map username (users (snd (signup H fresh s b))))"
    using d by auto
next
  fix issues
  assume "signupSchema b = Inl issues"
  then show "signup H fresh s b =
      (\<lparr>status = 400, body = MessageErrors ''Validation error'' issues\<rparr>, s)"
    by (simp add: signup_def signup_try_def reply_def)
qed

text \<open>A valid signup under the first user's name: 409, the store as it was.  A valid
  signup under a new name: the usernames stay distinct.\<close>

theorem signup_duplicate_username_witness:
  "signup sample_hash ''507f1f77bcf86cd7994390ff'' demo_store
     [(''username'', JString ''alice''), (''password'', JString ''another1'')] =
     (\<lparr>status = 409, body = Message ''Username already exists''\<rparr>, demo_store) \<and>
   distinct (map username (users demo_store)) \<and>
   distinct (map username (users (snd (signup sample_hash ''507f1f77bcf86cd7994390ff'' demo_store
     [(''username'', JString ''carol''), (''password'', JString ''another1'')]))))"
  using signup_duplicate_username [of
      "[(''username'', JString ''alice''), (''password'', JString ''another1'')]"
      "''alice''" "''another1''" demo_store sample_hash "''507f1f77bcf86cd7994390ff''"]
    signup_duplicate_username [of
      "[(''username'', JString ''carol''), (''password'', JString ''another1'')]"
      "''alice''" "''another1''" demo_store sample_hash "''507f1f77bcf86cd7994390ff''"]
  by (simp add: signupSchema_def z_object2_def z_string_def demo_store_def alice_def bob_def
      sample_hash_def)

text \<open>The first user's name with a password of three characters: 400, not 409.\<close>

theorem signup_short_password_counterexample:
  "''alice'' \<in> set (map username (users demo_store)) \<and>
   status (fst (signup sample_hash ''507f1f77bcf86cd7994390ff'' demo_store
     [(''username'', JString ''alice''), (''password'', JString ''abc'')])) = 400"
  by (simp add: signup_def signup_try_def signupSchema_def z_object2_def z_string_def
      demo_store_def alice_def bob_def reply_def)

section \<open>Credential Issuer: the token of a successful signin\<close>




text \<open>So it is with every library that meets the contract.\<close>

lemma jwt_contract_more_than_id:
  assumes "jwt_contract jsign jverify"
  shows "jverify now (jsign [(''id'', i)] k) k \<noteq> Some (JwtObject [(''id'', i)])"
proof -
  from assms obtain iat where
    "jverify now (jsign [(''id'', i)] k) k = Some (JwtObject [(''id'', i), (''iat'', iat)])"
    unfolding jwt_contract_def by blast
  then show ?thesis by simp
qed

section \<open>Content Store Access: the two delete endpoints agree\<close>

text \<open>
  Claim C9.  For every user and every non-empty content id, the delete endpoint that
  takes the id from the path and the one that takes it from the JSON body are
  equivalent: on the same store they give the same answer, status and message, and
  leave the same store.
\<close>

theorem delete_endpoints_equivalent:
  "cid \<noteq> [] \<and> map_of b ''contentId'' = Some (JString cid) \<longrightarrow>
     delete_content_body s uid b = delete_content_param s uid cid"
  by (auto simp: delete_content_body_def delete_content_body_steps_def delete_content_param_def
      delete_content_param_steps_def deleteContentSchema_def z_string_def ContentModel_deleteOne_def
      split: option.splits)

text \<open>The first user deletes the own item through either endpoint; an id that is not
  an ObjectId gets the same 400 from both.\<close>

theorem delete_endpoints_equivalent_witness:
  "delete_content_body demo_store (Some alice_id)
     [(''contentId'', JString ''65a1b2c3d4e5f60718293a4c'')] =
     delete_content_param demo_store (Some alice_id) ''65a1b2c3d4e5f60718293a4c'' \<and>
   delete_content_param demo_store (Some alice_id) ''65a1b2c3d4e5f60718293a4c'' =
     (\<lparr>status = 200, body = Message ''Content deleted successfully''\<rparr>,
      demo_store\<lparr>contents := [bobs_item]\<rparr>) \<and>
   delete_content_body demo_store (Some alice_id) [(''contentId'', JString ''xyz'')] =
     (\<lparr>status = 400, body = Message ''Invalid content ID format''\<rparr>, demo_store)"
  using delete_endpoints_equivalent [of "''65a1b2c3d4e5f60718293a4c''"
      "[(''contentId'', JString ''65a1b2c3d4e5f60718293a4c'')]" demo_store "Some alice_id"]
    delete_endpoints_equivalent [of "''xyz''" "[(''contentId'', JString ''xyz'')]" demo_store
      "Some alice_id"]
  by (simp add: delete_content_param_def delete_content_param_steps_def ContentModel_deleteOne_def
      castObjectId_def matches_objectid_def isHexDigit_def hex_lower_def demo_store_def
      alices_item_def bobs_item_def alice_id_def bob_id_def ok_def reply_def)

section \<open>Share Link Manager: a link whose owner is gone\<close>

text \<open>
  Claim C10.  For every resolve request with a code of 10 characters whose share link
  is stored while its owner has no user document, the answer is 404 "User not found":
  a message only, neither a username nor any content.
\<close>

theorem resolve_user_not_found:
  "length c = 10 \<and> findOne (\<lambda>l. hash l = c) (links s) = Some l \<and>
   findOne (\<lambda>u. user_id u = link_userId l) (users s) = None \<longrightarrow>
     resolve s c = \<lparr>status = 404, body = Message ''User not found''\<rparr>"
  by (simp add: resolve_lookup reply_def)

text \<open>The store without the first user's document, and that user's code.\<close>

theorem resolve_user_not_found_witness:
  "findOne (\<lambda>l. hash l = ''Xk3mP9qRt2'') (links dangling_store) = Some alices_link \<and>
   findOne (\<lambda>u. user_id u = link_userId alices_link) (users dangling_store) = None \<and>
   resolve dangling_store ''Xk3mP9qRt2'' = \<lparr>status = 404, body = Message ''User not found''\<rparr>"
  using resolve_user_not_found [of "''Xk3mP9qRt2''" dangling_store alices_link]
  by (simp add: findOne_def dangling_store_def demo_store_def alices_link_def bob_def
      alice_id_def bob_id_def)

end
